theory Spec2Isabelle
  imports Main "HOL-Library.Multiset" "HOL-Library.Sublist"
begin

section \<open>JavaScript values used by the widgets\<close>

text \<open>
  The repository holds three variants of one custom element \<open>github-repos\<close>:
  \<^item> \<open>src/gitglue.js\<close>: profile header, a 12-week contribution graph, searchable repo cards;
  \<^item> the first file of \<open>src/unnamed/part_000\<close> (lines 1-374): profile header and repo cards only;
  \<^item> the second file of \<open>src/unnamed/part_000\<close> (lines 375-929): profile header, an activity
    log, searchable repo cards.
  The methods \<open>connectedCallback\<close>, \<open>buildRepoCard\<close>, \<open>setupSearch\<close> and \<open>timeAgo\<close> are
  textually the same in all three.

  Strings are \<open>char list\<close>. A number that the code only ever reads as a non-negative count
  is a \<open>nat\<close>; the time value of a \<open>Date\<close> is an \<open>int\<close> of milliseconds since the epoch,
  and \<open>None\<close> stands for an Invalid Date (time value NaN).
\<close>

type_synonym js_date = "int option"

text \<open>Number to string, for integers (the only numbers that reach a template here).\<close>

definition digit_char :: "nat \<Rightarrow> char" where
  "digit_char d = ''0123456789'' ! d"

fun show_nat :: "nat \<Rightarrow> string" where
  "show_nat n = (if n < 10 then [digit_char n] else show_nat (n div 10) @ [digit_char (n mod 10)])"

declare show_nat.simps [simp del]

definition show_int :: "int \<Rightarrow> string" where
  "show_int i = (if i < 0 then CHR ''-'' # show_nat (nat (- i)) else show_nat (nat i))"

section \<open>timeAgo\<close>

text \<open>
  \<^verbatim>\<open>
  timeAgo(date) {
    const seconds = Math.floor((new Date() - date) / 1000);
    const intervals = [ { label: 'year', seconds: 31536000 }, { label: 'month', seconds: 2592000 },
      { label: 'day', seconds: 86400 }, { label: 'hour', seconds: 3600 }, { label: 'minute', seconds: 60 } ];
    for (const interval of intervals) {
      const count = Math.floor(seconds / interval.seconds);
      if (count >= 1) { return `${count} ${interval.label}${count > 1 ? 's' : ''} ago`; }
    }
    return 'just now';
  }
  \<close>
  \<open>new Date()\<close> is the parameter \<open>now\<close>. Time values are integers below \<open>2^53\<close> in
  magnitude, so the double division followed by \<open>Math.floor\<close> is the integer floor division.
  With an Invalid Date every \<open>count\<close> is NaN, no comparison \<open>count >= 1\<close> holds and the
  loop falls through.
\<close>

definition intervals :: "(string \<times> int) list" where
  "intervals = [(''year'', 31536000), (''month'', 2592000), (''day'', 86400),
                (''hour'', 3600), (''minute'', 60)]"

fun timeAgo_loop :: "int \<Rightarrow> (string \<times> int) list \<Rightarrow> string" where
  "timeAgo_loop seconds [] = ''just now''"
| "timeAgo_loop seconds ((label, secs) # rest) =
     (let count = seconds div secs in
      if count \<ge> 1
      then show_int count @ '' '' @ label @ (if count > 1 then ''s'' else '''') @ '' ago''
      else timeAgo_loop seconds rest)"

definition timeAgo :: "int \<Rightarrow> js_date \<Rightarrow> string" where
  "timeAgo now date =
     (case date of
        None \<Rightarrow> ''just now''
      | Some d \<Rightarrow> timeAgo_loop ((now - d) div 1000) intervals)"

section \<open>Records fetched from the API\<close>

text \<open>
  The fields are those the code reads, typed as the GitHub REST API delivers them. A field
  that may be \<open>null\<close> or absent and is only tested for truthiness is an \<open>option\<close>;
  \<open>updated_at\<close> and \<open>created_at\<close> hold the value of \<open>new Date(...)\<close> applied to the
  field, the only way the code reads them.
\<close>

record profile =
  p_html_url :: string
  p_avatar_url :: string
  p_login :: string
  p_name :: "string option"
  p_bio :: "string option"
  p_public_repos :: nat
  p_followers :: nat
  p_following :: nat

record repo =
  r_name :: string
  r_description :: "string option"
  r_language :: "string option"
  r_stargazers_count :: nat
  r_forks_count :: nat
  r_html_url :: string
  r_fork :: bool
  r_updated_at :: js_date

text \<open>
  \<open>payload.ref_type\<close> and \<open>payload.ref\<close> are interpolated into a template as they are, so
  \<open>undefined\<close> and \<open>null\<close> are kept apart for them.
\<close>

datatype 'a nullable = Undefined | Null | Val 'a

record payload =
  pl_head :: "string option"
  pl_ref_type :: "string nullable"
  pl_ref :: "string nullable"
  pl_action :: "string option"
  pl_number :: "nat option"
  pl_pull_request_number :: "nat option"
  pl_release_tag_name :: "string option"

record event =
  e_type :: string
  e_repo_name :: "string option"
  e_payload :: "payload option"
  e_created_at :: js_date

section \<open>String helpers\<close>

text \<open>\<open>a || b\<close> for a string-or-null \<open>a\<close>: the empty string is falsy.\<close>

definition or_else :: "string option \<Rightarrow> string \<Rightarrow> string" where
  "or_else a b = (case a of None \<Rightarrow> b | Some s \<Rightarrow> if s = '''' then b else s)"

text \<open>\<open>toLowerCase\<close> and \<open>toUpperCase\<close> on ASCII letters; other characters are unchanged.\<close>

definition lower_char :: "char \<Rightarrow> char" where
  "lower_char c =
     (case map_of (zip ''ABCDEFGHIJKLMNOPQRSTUVWXYZ'' ''abcdefghijklmnopqrstuvwxyz'') c of
        None \<Rightarrow> c | Some l \<Rightarrow> l)"

definition upper_char :: "char \<Rightarrow> char" where
  "upper_char c =
     (case map_of (zip ''abcdefghijklmnopqrstuvwxyz'' ''ABCDEFGHIJKLMNOPQRSTUVWXYZ'') c of
        None \<Rightarrow> c | Some u \<Rightarrow> u)"

definition toLowerCase :: "string \<Rightarrow> string" where
  "toLowerCase s = map lower_char s"

text \<open>\<open>s.includes(q)\<close>: \<open>q\<close> occurs in \<open>s\<close> as a contiguous substring.\<close>

fun js_includes :: "string \<Rightarrow> string \<Rightarrow> bool" where
  "js_includes [] q = (q = [])"
| "js_includes (c # cs) q = (prefix q (c # cs) \<or> js_includes cs q)"

text \<open>\<open>s.split(c)\<close> for a one-character separator.\<close>

fun split_on :: "char \<Rightarrow> string \<Rightarrow> string list" where
  "split_on c [] = [[]]"
| "split_on c (x # xs) =
     (if x = c then [] # split_on c xs
      else (case split_on c xs of [] \<Rightarrow> [[x]] | w # ws \<Rightarrow> (x # w) # ws))"

section \<open>buildRepoCard\<close>

text \<open>
  \<open>LANG_COLORS[repo.language] || '#8b949e'\<close>: the table is the object literal of the source;
  keys inherited from \<open>Object.prototype\<close> are no language names and are not modelled.
\<close>

definition LANG_COLORS :: "(string \<times> string) list" where
  "LANG_COLORS = [
     (''JavaScript'', ''#f1e05a''), (''TypeScript'', ''#2b7489''), (''Python'', ''#3572A5''),
     (''Java'', ''#b07219''), (''C'', ''#555555''), (''C++'', ''#f34b7d''),
     (''C#'', ''#178600''), (''Go'', ''#00ADD8''), (''Rust'', ''#dea584''),
     (''Ruby'', ''#701516''), (''PHP'', ''#4F5D95''), (''Swift'', ''#ffac45''),
     (''Kotlin'', ''#F18E33''), (''Scala'', ''#c22d40''), (''Shell'', ''#89e051''),
     (''HTML'', ''#e34c26''), (''CSS'', ''#563d7c''), (''SCSS'', ''#c6538c''),
     (''Vue'', ''#41b883''), (''Svelte'', ''#ff3e00''), (''Dart'', ''#00B4AB''),
     (''R'', ''#198CE7''), (''Julia'', ''#a270ba''), (''Lua'', ''#000080''),
     (''Perl'', ''#0298c3''), (''Haskell'', ''#5e5086''), (''Elixir'', ''#6e4a7e''),
     (''Clojure'', ''#db5855''), (''Erlang'', ''#B83998''), (''OCaml'', ''#3be133''),
     (''F#'', ''#b845fc''), (''Jupyter Notebook'', ''#DA5B0B''), (''TeX'', ''#3D6117''),
     (''Vim script'', ''#199f4b''), (''PowerShell'', ''#012456''), (''Dockerfile'', ''#384d54''),
     (''Makefile'', ''#427819''), (''Stata'', ''#1a5f91''), (''MATLAB'', ''#e16737''),
     (''Fortran'', ''#4d41b1''), (''Assembly'', ''#6E4C13''), (''Objective-C'', ''#438eff''),
     (''Groovy'', ''#e69f56'')]"

definition lang_color :: "string \<Rightarrow> string" where
  "lang_color l = (case map_of LANG_COLORS l of None \<Rightarrow> ''#8b949e'' | Some c \<Rightarrow> c)"

definition lang :: "repo \<Rightarrow> string" where
  \<open>lang repo =
     (case r_language repo of None \<Rightarrow> '''' | Some l \<Rightarrow> if l = '''' then '''' else
     ''\<newline>'' @
     ''      <span class="lang">\<newline>'' @
     ''        <span class="lang-dot" style="background: '' @
     lang_color l @
     ''"></span>\<newline>'' @
     ''        '' @
     l @
     ''\<newline>'' @
     ''      </span>\<newline>'' @
     ''    '')\<close>

definition stars :: "repo \<Rightarrow> string" where
  \<open>stars repo =
     (if r_stargazers_count repo = 0 then '''' else
     ''\<newline>'' @
     ''      <a href="'' @
     r_html_url repo @
     ''/stargazers" target="_blank" rel="noopener" class="stat">\<newline>'' @
     ''        <svg viewBox="0 0 16 16" width="16" height="16"><path fill="currentColor" d="M8 .25a.75.75 0 0 1 .673.418l1.882 3.815 4.21.612a.75.75 0 0 1 .416 1.279l-3.046 2.97.719 4.192a.751.751 0 0 1-1.088.791L8 12.347l-3.766 1.98a.75.75 0 0 1-1.088-.79l.72-4.194L.818 6.374a.75.75 0 0 1 .416-1.28l4.21-.611L7.327.668A.75.75 0 0 1 8 .25Z"></path></svg>\<newline>'' @
     ''        '' @
     show_nat (r_stargazers_count repo) @
     ''\<newline>'' @
     ''      </a>\<newline>'' @
     ''    '')\<close>

definition forks :: "repo \<Rightarrow> string" where
  \<open>forks repo =
     (if r_forks_count repo = 0 then '''' else
     ''\<newline>'' @
     ''      <a href="'' @
     r_html_url repo @
     ''/forks" target="_blank" rel="noopener" class="stat">\<newline>'' @
     ''        <svg viewBox="0 0 16 16" width="16" height="16"><path fill="currentColor" d="M5 5.372v.878c0 .414.336.75.75.75h4.5a.75.75 0 0 0 .75-.75v-.878a2.25 2.25 0 1 1 1.5 0v.878a2.25 2.25 0 0 1-2.25 2.25h-1.5v2.128a2.251 2.251 0 1 1-1.5 0V8.5h-1.5A2.25 2.25 0 0 1 3.5 6.25v-.878a2.25 2.25 0 1 1 1.5 0ZM5 3.25a.75.75 0 1 0-1.5 0 .75.75 0 0 0 1.5 0Zm6.75.75a.75.75 0 1 0 0-1.5.75.75 0 0 0 0 1.5Zm-3 8.75a.75.75 0 1 0-1.5 0 .75.75 0 0 0 1.5 0Z"></path></svg>\<newline>'' @
     ''        '' @
     show_nat (r_forks_count repo) @
     ''\<newline>'' @
     ''      </a>\<newline>'' @
     ''    '')\<close>

definition buildRepoCard :: "int \<Rightarrow> repo \<Rightarrow> string" where
  \<open>buildRepoCard now repo =
     ''\<newline>'' @
     ''      <article class="repo" data-name="'' @
     toLowerCase (r_name repo) @
     ''" data-desc="'' @
     toLowerCase (or_else (r_description repo) '''') @
     ''">\<newline>'' @
     ''        <div class="repo-header">\<newline>'' @
     ''          <svg viewBox="0 0 16 16" width="16" height="16" class="repo-icon"><path fill="currentColor" d="M2 2.5A2.5 2.5 0 0 1 4.5 0h8.75a.75.75 0 0 1 .75.75v12.5a.75.75 0 0 1-.75.75h-2.5a.75.75 0 0 1 0-1.5h1.75v-2h-8a1 1 0 0 0-.714 1.7.75.75 0 1 1-1.072 1.05A2.495 2.495 0 0 1 2 11.5Zm10.5-1h-8a1 1 0 0 0-1 1v6.708A2.486 2.486 0 0 1 4.5 9h8ZM5 12.25a.25.25 0 0 1 .25-.25h3.5a.25.25 0 0 1 .25.25v3.25a.25.25 0 0 1-.4.2l-1.45-1.087a.249.249 0 0 0-.3 0L5.4 15.7a.25.25 0 0 1-.4-.2Z"></path></svg>\<newline>'' @
     ''          <a href="'' @
     r_html_url repo @
     ''" target="_blank" rel="noopener" class="repo-name">'' @
     r_name repo @
     ''</a>\<newline>'' @
     ''          '' @
     (if r_fork repo then ''<span class="fork-badge">Fork</span>'' else '''') @
     ''\<newline>'' @
     ''        </div>\<newline>'' @
     ''        '' @
     (case r_description repo of None \<Rightarrow> '''' | Some d \<Rightarrow> if d = '''' then '''' else ''<p class="repo-desc">'' @ d @ ''</p>'') @
     ''\<newline>'' @
     ''        <div class="repo-meta">\<newline>'' @
     ''          '' @
     lang repo @
     ''\<newline>'' @
     ''          '' @
     stars repo @
     ''\<newline>'' @
     ''          '' @
     forks repo @
     ''\<newline>'' @
     ''          <span class="updated">Updated '' @
     timeAgo now (r_updated_at repo) @
     ''</span>\<newline>'' @
     ''        </div>\<newline>'' @
     ''      </article>\<newline>'' @
     ''    ''\<close>

section \<open>Array.prototype.sort\<close>

text \<open>
  \<open>repos.sort((a, b) => new Date(b.updated_at) - new Date(a.updated_at))\<close>.
  The language specifies \<open>sort\<close> as stable, and for a consistent comparator the result is
  the one stably sorted permutation; a stable insertion sort computes it. A comparator result
  NaN (an Invalid Date on either side) counts as \<open>+0\<close>. The sort is in place: the caller's
  array holds the sorted list afterwards.
\<close>

fun insert_by :: "('a \<Rightarrow> 'a \<Rightarrow> int) \<Rightarrow> 'a \<Rightarrow> 'a list \<Rightarrow> 'a list" where
  "insert_by cmp x [] = [x]"
| "insert_by cmp x (y # ys) = (if cmp x y \<le> 0 then x # y # ys else y # insert_by cmp x ys)"

definition js_sort :: "('a \<Rightarrow> 'a \<Rightarrow> int) \<Rightarrow> 'a list \<Rightarrow> 'a list" where
  "js_sort cmp xs = foldr (insert_by cmp) xs []"

definition compare_updated :: "repo \<Rightarrow> repo \<Rightarrow> int" where
  "compare_updated a b =
     (case (r_updated_at b, r_updated_at a) of
        (Some tb, Some ta) \<Rightarrow> tb - ta
      | _ \<Rightarrow> 0)"

section \<open>buildContributionData\<close>

text \<open>
  \<^verbatim>\<open>
  buildContributionData(events) {
    const weeks = [];
    const today = new Date();
    for (let i = 11; i >= 0; i--) {
      const weekStart = new Date(today);
      weekStart.setDate(weekStart.getDate() - (i * 7) - today.getDay());
      weeks.push({ start: weekStart, count: 0,
        label: weekStart.toLocaleDateString('en-US', { month: 'short', day: 'numeric' }) });
    }
    events.forEach(event => {
      const eventDate = new Date(event.created_at);
      for (let i = 0; i < weeks.length; i++) {
        const weekEnd = new Date(weeks[i].start);
        weekEnd.setDate(weekEnd.getDate() + 7);
        if (eventDate >= weeks[i].start && eventDate < weekEnd) { weeks[i].count++; break; }
      }
    });
    return weeks;
  }
  \<close>
  Local time is UTC plus a fixed offset \<open>tz\<close> (milliseconds), with no daylight-saving change
  inside the twelve weeks, so that \<open>setDate(getDate() + k)\<close> moves the time value by \<open>k\<close>
  days of 86400000 ms and keeps the time of day. \<open>getDay\<close> numbers Sunday as 0; the epoch
  was a Thursday. \<open>toLocaleDateString\<close> belongs to the platform and is the parameter
  \<open>fmt\<close>. A comparison with an Invalid Date is false.
\<close>

record week =
  w_start :: int
  w_count :: nat
  w_label :: string

definition day_ms :: int where
  "day_ms = 86400000"

definition getDay :: "int \<Rightarrow> int \<Rightarrow> int" where
  "getDay tz t = ((t + tz) div day_ms + 4) mod 7"

definition addDays :: "int \<Rightarrow> int \<Rightarrow> int" where
  "addDays t k = t + k * day_ms"

definition new_week :: "int \<Rightarrow> (int \<Rightarrow> string) \<Rightarrow> int \<Rightarrow> nat \<Rightarrow> week" where
  "new_week tz fmt today i =
     (let weekStart = addDays today (- (int i * 7) - getDay tz today)
      in \<lparr>w_start = weekStart, w_count = 0, w_label = fmt weekStart\<rparr>)"

definition in_week :: "js_date \<Rightarrow> week \<Rightarrow> bool" where
  "in_week eventDate w =
     (case eventDate of
        None \<Rightarrow> False
      | Some t \<Rightarrow> (let weekEnd = addDays (w_start w) 7 in t \<ge> w_start w \<and> t < weekEnd))"

fun count_event :: "js_date \<Rightarrow> week list \<Rightarrow> week list" where
  "count_event eventDate [] = []"
| "count_event eventDate (w # ws) =
     (if in_week eventDate w then w\<lparr>w_count := w_count w + 1\<rparr> # ws
      else w # count_event eventDate ws)"

definition buildContributionData ::
  "int \<Rightarrow> int \<Rightarrow> (int \<Rightarrow> string) \<Rightarrow> event list \<Rightarrow> week list" where
  "buildContributionData now tz fmt events =
     (let today = now;
          weeks = map (new_week tz fmt today) (rev [0..<12])
      in foldl (\<lambda>weeks event. count_event (e_created_at event) weeks) weeks events)"

section \<open>buildContributionGraph\<close>

text \<open>
  The bar height \<open>(week.count / maxCount) * maxHeight || 2\<close>, \<open>y = maxHeight - barHeight\<close>
  and \<open>y - 4\<close> are double-precision numbers printed into the markup. Floating point is not
  modelled: the three printed numbers for a given \<open>count\<close> and \<open>maxCount\<close> are the parameter
  \<open>bar_numbers\<close>. All other numbers of the graph are integers.
\<close>

record bar_text =
  bt_barHeight :: string
  bt_y :: string
  bt_y_minus_4 :: string

definition barWidth :: nat where "barWidth = 50"
definition barGap :: nat where "barGap = 8"
definition maxHeight :: nat where "maxHeight = 60"

definition bar :: "(nat \<Rightarrow> nat \<Rightarrow> bar_text) \<Rightarrow> nat \<Rightarrow> nat \<times> week \<Rightarrow> string" where
  \<open>bar bar_numbers maxCount iw =
     (let i = fst iw; week = snd iw;
          b = bar_numbers (w_count week) maxCount;
          x = i * (barWidth + barGap)
      in
        ''<rect x="'' @
        show_nat x @
        ''" y="'' @
        bt_y b @
        ''" width="'' @
        show_nat barWidth @
        ''" height="'' @
        bt_barHeight b @
        ''" rx="3" fill="#40c463" class="activity-bar"><title>'' @
        w_label week @
        '': '' @
        show_nat (w_count week) @
        '' events</title></rect>'' @
        ''<text x="'' @
        show_nat (x + barWidth div 2) @
        ''" y="'' @
        show_nat (maxHeight + 16) @
        ''" text-anchor="middle" class="bar-label">'' @
        w_label week @
        ''</text>'' @
        (if w_count week > 0 then
        ''<text x="'' @
        show_nat (x + barWidth div 2) @
        ''" y="'' @
        bt_y_minus_4 b @
        ''" text-anchor="middle" class="bar-count">'' @
        show_nat (w_count week) @
        ''</text>''
         else ''''))\<close>

definition buildContributionGraph :: "(nat \<Rightarrow> nat \<Rightarrow> bar_text) \<Rightarrow> week list \<Rightarrow> string" where
  \<open>buildContributionGraph bar_numbers weeks =
     (let width = length weeks * (barWidth + barGap);
          height = maxHeight + 30;
          maxCount = foldr max (map w_count weeks) 1;
          bars = concat (map (bar bar_numbers maxCount) (enumerate 0 weeks));
          totalEvents = foldl (\<lambda>sum w. sum + w_count w) 0 weeks
      in
     ''\<newline>'' @
     ''      <div class="activity-header">\<newline>'' @
     ''        <span class="activity-title">Activity (last 12 weeks)</span>\<newline>'' @
     ''        <span class="activity-total">'' @
     show_nat totalEvents @
     '' events</span>\<newline>'' @
     ''      </div>\<newline>'' @
     ''      <svg width="100%" height="'' @
     show_nat height @
     ''" viewBox="0 0 '' @
     show_nat width @
     '' '' @
     show_nat height @
     ''" preserveAspectRatio="xMidYMid meet" class="contrib-svg">\<newline>'' @
     ''        '' @
     bars @
     ''\<newline>'' @
     ''      </svg>\<newline>'' @
     ''    '')\<close>

section \<open>formatEventDescription and buildActivityLog\<close>

text \<open>
  \<^verbatim>\<open>
  capitalize(str) { return str ? str.charAt(0).toUpperCase() + str.slice(1) : ''; }

  formatEventDescription(event) {
    const repoFullName = event.repo?.name || 'unknown';
    const repoName = repoFullName.split('/')[1] || repoFullName;
    const repoUrl = `https://github.com/${repoFullName}`;
    const repoLink = `<a href="${repoUrl}" target="_blank" rel="noopener">${repoName}</a>`;
    switch (event.type) {
      case 'PushEvent':
        const hash = event.payload?.head?.substring(0, 7);
        const commitLink = hash ? ` <a href="${repoUrl}/commit/${event.payload.head}" ...
                                     class="commit-hash">${hash}</a>` : '';
        return `Pushed to ${repoLink}${commitLink}`;
      case 'CreateEvent':
        const refType = event.payload?.ref_type || 'repository';
        const ref = event.payload?.ref;
        return ref ? `Created ${refType} <strong>${ref}</strong> in ${repoLink}`
                   : `Created ${refType} ${repoLink}`;
      case 'DeleteEvent':
        return `Deleted ${event.payload?.ref_type} <strong>${event.payload?.ref}</strong> from ${repoLink}`;
      ...
      default:
        return `Activity in ${repoLink}`;
    }
  }
  \<close>
  The switch compares \<open>event.type\<close> with each label in turn; it is written as a chain of
  conditionals in the order of the labels.
\<close>

definition capitalize :: "string option \<Rightarrow> string" where
  "capitalize str =
     (case str of None \<Rightarrow> '''' | Some s \<Rightarrow>
        (case s of [] \<Rightarrow> '''' | c # cs \<Rightarrow> upper_char c # cs))"

definition repoFullName :: "event \<Rightarrow> string" where
  "repoFullName event = or_else (e_repo_name event) ''unknown''"

definition repoName :: "event \<Rightarrow> string" where
  "repoName event =
     (case split_on CHR ''/'' (repoFullName event) of
        _ # second # _ \<Rightarrow> if second = '''' then repoFullName event else second
      | _ \<Rightarrow> repoFullName event)"

definition repoUrl :: "event \<Rightarrow> string" where
  "repoUrl event = ''https://github.com/'' @ repoFullName event"

definition repoLink :: "event \<Rightarrow> string" where
  \<open>repoLink event =
     ''<a href="'' @ repoUrl event @ ''" target="_blank" rel="noopener">'' @ repoName event @ ''</a>''\<close>

text \<open>\<open>event.payload?.f\<close> for an optional field, and for a field printed as it is.\<close>

definition payload_opt :: "(payload \<Rightarrow> 'a option) \<Rightarrow> event \<Rightarrow> 'a option" where
  "payload_opt f event = (case e_payload event of None \<Rightarrow> None | Some p \<Rightarrow> f p)"

definition payload_val :: "(payload \<Rightarrow> 'a nullable) \<Rightarrow> event \<Rightarrow> 'a nullable" where
  "payload_val f event = (case e_payload event of None \<Rightarrow> Undefined | Some p \<Rightarrow> f p)"

definition nullable_text :: "string nullable \<Rightarrow> string" where
  "nullable_text v = (case v of Undefined \<Rightarrow> ''undefined'' | Null \<Rightarrow> ''null'' | Val s \<Rightarrow> s)"

definition nullable_truthy :: "string nullable \<Rightarrow> bool" where
  "nullable_truthy v = (case v of Val s \<Rightarrow> s \<noteq> '''' | _ \<Rightarrow> False)"

text \<open>The link to a pull request, shared by the three pull-request cases of the switch.\<close>

definition pr_link :: "event \<Rightarrow> nat option \<Rightarrow> string" where
  \<open>pr_link event prNum =
     (case prNum of
        None \<Rightarrow> ''''
      | Some n \<Rightarrow>
          if n = 0 then ''''
          else '' <a href="'' @ repoUrl event @ ''/pull/'' @ show_nat n @
               ''" target="_blank" rel="noopener" class="commit-hash">#'' @ show_nat n @ ''</a>'')\<close>

definition formatEventDescription :: "event \<Rightarrow> string" where
  \<open>formatEventDescription event =
     (if e_type event = ''PushEvent'' then
        (let commitLink =
               (case payload_opt pl_head event of
                  None \<Rightarrow> ''''
                | Some head \<Rightarrow>
                    (let hash = take 7 head
                     in if hash = '''' then ''''
                        else '' <a href="'' @ repoUrl event @ ''/commit/'' @ head @
                             ''" target="_blank" rel="noopener" class="commit-hash">'' @ hash @
                             ''</a>''))
         in ''Pushed to '' @ repoLink event @ commitLink)
      else if e_type event = ''CreateEvent'' then
        (let refType = (if nullable_truthy (payload_val pl_ref_type event)
                        then nullable_text (payload_val pl_ref_type event) else ''repository'');
             ref = payload_val pl_ref event
         in if nullable_truthy ref
            then ''Created '' @ refType @ '' <strong>'' @ nullable_text ref @ ''</strong> in '' @ repoLink event
            else ''Created '' @ refType @ '' '' @ repoLink event)
      else if e_type event = ''DeleteEvent'' then
        ''Deleted '' @ nullable_text (payload_val pl_ref_type event) @ '' <strong>'' @
        nullable_text (payload_val pl_ref event) @ ''</strong> from '' @ repoLink event
      else if e_type event = ''WatchEvent'' then ''Starred '' @ repoLink event
      else if e_type event = ''ForkEvent'' then ''Forked '' @ repoLink event
      else if e_type event = ''IssuesEvent'' then
        capitalize (payload_opt pl_action event) @ '' issue in '' @ repoLink event
      else if e_type event = ''IssueCommentEvent'' then ''Commented on issue in '' @ repoLink event
      else if e_type event = ''PullRequestEvent'' then
        capitalize (payload_opt pl_action event) @ '' PR in '' @ repoLink event @
        pr_link event (payload_opt pl_number event)
      else if e_type event = ''PullRequestReviewEvent'' then
        ''Reviewed PR in '' @ repoLink event @ pr_link event (payload_opt pl_pull_request_number event)
      else if e_type event = ''PullRequestReviewCommentEvent'' then
        ''Commented on PR in '' @ repoLink event @
        pr_link event (payload_opt pl_pull_request_number event)
      else if e_type event = ''ReleaseEvent'' then
        (let tag = payload_opt pl_release_tag_name event;
             tagLink =
               (case tag of
                  None \<Rightarrow> ''''
                | Some t \<Rightarrow>
                    if t = '''' then ''''
                    else '' <a href="'' @ repoUrl event @ ''/releases/tag/'' @ t @
                         ''" target="_blank" rel="noopener" class="commit-hash">'' @ t @ ''</a>'')
         in capitalize (payload_opt pl_action event) @ '' release in '' @ repoLink event @ tagLink)
      else if e_type event = ''PublicEvent'' then ''Made '' @ repoLink event @ '' public''
      else ''Activity in '' @ repoLink event)\<close>

definition buildActivityLog :: "int \<Rightarrow> event list \<Rightarrow> string" where
  \<open>buildActivityLog now events =
     (if events = [] then
        ''\<newline>'' @
        ''        <div class="activity-header">\<newline>'' @
        ''          <span class="activity-title">Recent Activity</span>\<newline>'' @
        ''        </div>\<newline>'' @
        ''        <div class="activity-empty">No recent activity</div>\<newline>'' @
        ''      ''
      else
        (let items = concat (map (\<lambda>event.
        ''\<newline>'' @
        ''        <div class="activity-item">\<newline>'' @
        ''          <span class="activity-desc">'' @
        formatEventDescription event @
        ''</span>\<newline>'' @
        ''          <span class="activity-time">'' @
        timeAgo now (e_created_at event) @
        ''</span>\<newline>'' @
        ''        </div>\<newline>'' @
        ''      '') (take 30 events))
         in
        ''\<newline>'' @
        ''      <div class="activity-header">\<newline>'' @
        ''        <span class="activity-title">Recent Activity</span>\<newline>'' @
        ''        <span class="activity-total">'' @
        show_nat (length events) @
        '' events</span>\<newline>'' @
        ''      </div>\<newline>'' @
        ''      <div class="activity-list">\<newline>'' @
        ''        '' @
        items @
        ''\<newline>'' @
        ''      </div>\<newline>'' @
        ''    ''))\<close>

section \<open>buildHTML\<close>

text \<open>
  The template of \<open>buildHTML\<close> is cut into named pieces: the opening of the container
  with the profile header, the \<open>div\<close> of the graph or of the activity log, the search box with
  the opening of the \<open>repos\<close> \<open>div\<close>, the cards, and the closing tags. The header, the
  search box and the closing tags are the same text in the three files.
\<close>

definition profile_header :: "profile \<Rightarrow> string" where
  \<open>profile_header profile =
     ''\<newline>'' @
     ''      <div class="container">\<newline>'' @
     ''        <header class="profile">\<newline>'' @
     ''          <a href="'' @
     p_html_url profile @
     ''" target="_blank" rel="noopener">\<newline>'' @
     ''            <img src="'' @
     p_avatar_url profile @
     ''" alt="'' @
     p_login profile @
     ''" class="avatar">\<newline>'' @
     ''          </a>\<newline>'' @
     ''          <div class="profile-info">\<newline>'' @
     ''            <a href="'' @
     p_html_url profile @
     ''" target="_blank" rel="noopener" class="name">'' @
     or_else (p_name profile) (p_login profile) @
     ''</a>\<newline>'' @
     ''            <span class="username">@'' @
     p_login profile @
     ''</span>\<newline>'' @
     ''            '' @
     (case p_bio profile of None \<Rightarrow> '''' | Some b \<Rightarrow> if b = '''' then '''' else ''<p class="bio">'' @ b @ ''</p>'') @
     ''\<newline>'' @
     ''            <div class="stats">\<newline>'' @
     ''              <a href="'' @
     p_html_url profile @
     ''?tab=repositories" target="_blank" rel="noopener">\<newline>'' @
     ''                <strong>'' @
     show_nat (p_public_repos profile) @
     ''</strong> repos\<newline>'' @
     ''              </a>\<newline>'' @
     ''              <a href="'' @
     p_html_url profile @
     ''?tab=followers" target="_blank" rel="noopener">\<newline>'' @
     ''                <strong>'' @
     show_nat (p_followers profile) @
     ''</strong> followers\<newline>'' @
     ''              </a>\<newline>'' @
     ''              <a href="'' @
     p_html_url profile @
     ''?tab=following" target="_blank" rel="noopener">\<newline>'' @
     ''                <strong>'' @
     show_nat (p_following profile) @
     ''</strong> following\<newline>'' @
     ''              </a>\<newline>'' @
     ''            </div>\<newline>'' @
     ''          </div>\<newline>'' @
     ''        </header>\<newline>''\<close>

definition search_container :: string where
  \<open>search_container =
     ''\<newline>'' @
     ''        <div class="search-container">\<newline>'' @
     ''          <input type="text" class="search" placeholder="Search repositories...">\<newline>'' @
     ''        </div>\<newline>'' @
     ''\<newline>'' @
     ''        <div class="repos">\<newline>'' @
     ''          ''\<close>

definition container_close :: string where
  \<open>container_close =
     ''\<newline>'' @
     ''        </div>\<newline>'' @
     ''      </div>\<newline>'' @
     ''    ''\<close>

text \<open>\<open>src/gitglue.js\<close>: contribution graph, cards sorted by \<open>updated_at\<close>.\<close>

definition contrib_graph_div :: "(nat \<Rightarrow> nat \<Rightarrow> bar_text) \<Rightarrow> week list \<Rightarrow> string" where
  \<open>contrib_graph_div bar_numbers contributions =
     ''\<newline>'' @
     ''        <div class="contrib-graph">\<newline>'' @
     ''          '' @
     buildContributionGraph bar_numbers contributions @
     ''\<newline>'' @
     ''        </div>\<newline>''\<close>

definition buildHTML ::
  "(nat \<Rightarrow> nat \<Rightarrow> bar_text) \<Rightarrow> int \<Rightarrow> profile \<Rightarrow> repo list \<Rightarrow> week list \<Rightarrow> string" where
  \<open>buildHTML bar_numbers now profile repos contributions =
     profile_header profile @
     contrib_graph_div bar_numbers contributions @
     search_container @
     concat (map (buildRepoCard now) (js_sort compare_updated repos)) @
     container_close\<close>

text \<open>First file of \<open>src/unnamed/part_000\<close>: \<open>repos.map(...)\<close> with no sort.\<close>

definition buildHTML_cards :: "int \<Rightarrow> profile \<Rightarrow> repo list \<Rightarrow> string" where
  \<open>buildHTML_cards now profile repos =
     profile_header profile @
     search_container @
     concat (map (buildRepoCard now) repos) @
     container_close\<close>

text \<open>Second file of \<open>src/unnamed/part_000\<close>: activity log, cards sorted by \<open>updated_at\<close>.\<close>

definition activity_log_div :: "int \<Rightarrow> event list \<Rightarrow> string" where
  \<open>activity_log_div now events =
     ''\<newline>'' @
     ''        <div class="activity-log">\<newline>'' @
     ''          '' @
     buildActivityLog now events @
     ''\<newline>'' @
     ''        </div>\<newline>''\<close>

definition buildHTML_activity :: "int \<Rightarrow> profile \<Rightarrow> repo list \<Rightarrow> event list \<Rightarrow> string" where
  \<open>buildHTML_activity now profile repos events =
     profile_header profile @
     activity_log_div now events @
     search_container @
     concat (map (buildRepoCard now) (js_sort compare_updated repos)) @
     container_close\<close>



section \<open>setupSearch\<close>

text \<open>
  \<^verbatim>\<open>
  setupSearch() {
    const search = this.shadowRoot.querySelector('.search');
    const repos = this.shadowRoot.querySelectorAll('.repo');
    search?.addEventListener('input', (e) => {
      const query = e.target.value.toLowerCase();
      repos.forEach(repo => {
        const name = repo.dataset.name;
        const desc = repo.dataset.desc;
        const match = name.includes(query) || desc.includes(query);
        repo.style.display = match ? '' : 'none';
      });
    });
  }
  \<close>
  The \<open>.repo\<close> elements come from the markup that \<open>buildRepoCard\<close> wrote, read back by the
  HTML parser of the platform. Of that parser only the reading of a double-quoted attribute
  value is modelled: the value of \<open>key="..."\<close> is the text after the first \<open> key="\<close> up to
  the next double quote (character references are not decoded). \<open>dataset.name\<close> and
  \<open>dataset.desc\<close> are the values of \<open>data-name\<close> and \<open>data-desc\<close>; a missing attribute
  reads as \<open>undefined\<close>, on which \<open>includes\<close> raises a TypeError that ends the \<open>forEach\<close>.
\<close>

fun after_first :: "string \<Rightarrow> string \<Rightarrow> string option" where
  "after_first pat [] = (if pat = [] then Some [] else None)"
| "after_first pat (c # cs) =
     (if prefix pat (c # cs) then Some (drop (length pat) (c # cs)) else after_first pat cs)"

definition attr_value :: "string \<Rightarrow> string \<Rightarrow> string option" where
  \<open>attr_value key html =
     map_option (takeWhile (\<lambda>c. c \<noteq> CHR 0x22)) (after_first ('' '' @ key @ ''="'') html)\<close>

record card_el =
  dataset_name :: "string option"
  dataset_desc :: "string option"
  style_display :: string

definition card_element :: "string \<Rightarrow> card_el" where
  "card_element html =
     \<lparr>dataset_name = attr_value ''data-name'' html,
      dataset_desc = attr_value ''data-desc'' html,
      style_display = ''''\<rparr>"

fun search_each :: "string \<Rightarrow> card_el list \<Rightarrow> card_el list" where
  "search_each query [] = []"
| "search_each query (repo # rest) =
     (case dataset_name repo of
        None \<Rightarrow> repo # rest
      | Some name \<Rightarrow>
          if js_includes name query
          then repo\<lparr>style_display := ''''\<rparr> # search_each query rest
          else (case dataset_desc repo of
                  None \<Rightarrow> repo # rest
                | Some desc \<Rightarrow>
                    repo\<lparr>style_display := (if js_includes desc query then '''' else ''none'')\<rparr>
                    # search_each query rest))"

definition search_input :: "string \<Rightarrow> card_el list \<Rightarrow> card_el list" where
  "search_input value repos = (let query = toLowerCase value in search_each query repos)"

section \<open>connectedCallback and render\<close>

text \<open>
  What the element does is a list of actions in program order: assignments to
  \<open>shadowRoot.innerHTML\<close>, calls of \<open>fetch\<close> and the call of \<open>setupSearch\<close>. The outcome of
  a \<open>fetch\<close> is an input: the promise rejects, or it resolves to a response with its \<open>ok\<close>
  flag and the outcome of \<open>json()\<close> (\<open>None\<close> when that promise rejects). \<open>getStyles()\<close>
  returns a constant style sheet, passed as \<open>styles\<close>.
\<close>

datatype 'a fetch_result = Rejected | Response bool "'a option"

datatype action = SetInnerHTML string | Fetch string | SetupSearch

definition missing_user :: string where
  \<open>missing_user = ''<p style="color: #f85149;">Error: Missing "user" attribute</p>''\<close>

definition loading :: string where
  \<open>loading = ''<div class="loading">Loading repositories...</div>''\<close>

definition failed :: string where
  \<open>failed = ''<p class="error">Failed to load GitHub data</p>''\<close>

definition profile_url :: "string \<Rightarrow> string" where
  "profile_url user = ''https://api.github.com/users/'' @ user"

definition repos_url :: "string \<Rightarrow> string" where
  "repos_url user = ''https://api.github.com/users/'' @ user @ ''/repos?sort=updated&per_page=100''"

definition events_url :: "string \<Rightarrow> string" where
  "events_url user = ''https://api.github.com/users/'' @ user @ ''/events?per_page=100''"

text \<open>
  \<open>src/gitglue.js\<close>:
  \<^verbatim>\<open>
  async render(user) {
    this.shadowRoot.innerHTML = this.getStyles() + '<div class="loading">Loading repositories...</div>';
    try {
      const [profileRes, reposRes, eventsRes] = await Promise.all([
        fetch(`https://api.github.com/users/${user}`),
        fetch(`https://api.github.com/users/${user}/repos?sort=updated&per_page=100`),
        fetch(`https://api.github.com/users/${user}/events?per_page=100`)
      ]);
      if (!profileRes.ok || !reposRes.ok) throw new Error('Failed to fetch');
      const profile = await profileRes.json();
      const repos = await reposRes.json();
      const events = eventsRes.ok ? await eventsRes.json() : [];
      const contributions = this.buildContributionData(events);
      this.shadowRoot.innerHTML = this.getStyles() + this.buildHTML(profile, repos, contributions);
      this.setupSearch();
    } catch (err) {
      this.shadowRoot.innerHTML = this.getStyles() + `<p class="error">Failed to load GitHub data</p>`;
    }
  }
  \<close>
  Every statement of the \<open>try\<close> block that can throw stands before its two effects, so the
  block either runs to its end or leaves the shadow root to the \<open>catch\<close> clause.
\<close>

definition render ::
  "string \<Rightarrow> int \<Rightarrow> int \<Rightarrow> (int \<Rightarrow> string) \<Rightarrow> (nat \<Rightarrow> nat \<Rightarrow> bar_text) \<Rightarrow> string \<Rightarrow>
   profile fetch_result \<Rightarrow> repo list fetch_result \<Rightarrow> event list fetch_result \<Rightarrow> action list" where
  "render styles now tz fmt bar_numbers user profileRes reposRes eventsRes =
     [SetInnerHTML (styles @ loading),
      Fetch (profile_url user), Fetch (repos_url user), Fetch (events_url user)] @
     (case (profileRes, reposRes, eventsRes) of
        (Response profile_ok profile_json, Response repos_ok repos_json,
         Response events_ok events_json) \<Rightarrow>
          if \<not> profile_ok \<or> \<not> repos_ok then [SetInnerHTML (styles @ failed)]
          else
            (case profile_json of None \<Rightarrow> [SetInnerHTML (styles @ failed)] | Some profile \<Rightarrow>
             case repos_json of None \<Rightarrow> [SetInnerHTML (styles @ failed)] | Some repos \<Rightarrow>
             case (if events_ok then events_json else Some []) of
               None \<Rightarrow> [SetInnerHTML (styles @ failed)]
             | Some events \<Rightarrow>
                 (let contributions = buildContributionData now tz fmt events
                  in [SetInnerHTML (styles @ buildHTML bar_numbers now profile repos contributions),
                      SetupSearch]))
      | _ \<Rightarrow> [SetInnerHTML (styles @ failed)])"


text \<open>Second file of \<open>src/unnamed/part_000\<close>.\<close>

definition render_activity ::
  "string \<Rightarrow> int \<Rightarrow> string \<Rightarrow>
   profile fetch_result \<Rightarrow> repo list fetch_result \<Rightarrow> event list fetch_result \<Rightarrow> action list" where
  "render_activity styles now user profileRes reposRes eventsRes =
     [SetInnerHTML (styles @ loading),
      Fetch (profile_url user), Fetch (repos_url user), Fetch (events_url user)] @
     (case (profileRes, reposRes, eventsRes) of
        (Response profile_ok profile_json, Response repos_ok repos_json,
         Response events_ok events_json) \<Rightarrow>
          if \<not> profile_ok \<or> \<not> repos_ok then [SetInnerHTML (styles @ failed)]
          else
            (case profile_json of None \<Rightarrow> [SetInnerHTML (styles @ failed)] | Some profile \<Rightarrow>
             case repos_json of None \<Rightarrow> [SetInnerHTML (styles @ failed)] | Some repos \<Rightarrow>
             case (if events_ok then events_json else Some []) of
               None \<Rightarrow> [SetInnerHTML (styles @ failed)]
             | Some events \<Rightarrow>
                 [SetInnerHTML (styles @ buildHTML_activity now profile repos events), SetupSearch])
      | _ \<Rightarrow> [SetInnerHTML (styles @ failed)])"

text \<open>
  \<open>connectedCallback\<close> is the same in the three files; \<open>this.render\<close> is its parameter.
  \<open>getAttribute\<close> returns \<open>null\<close> for a missing attribute, and the empty string is falsy.
\<close>

definition connectedCallback :: "(string \<Rightarrow> action list) \<Rightarrow> string option \<Rightarrow> action list" where
  "connectedCallback this_render user =
     (case user of
        None \<Rightarrow> [SetInnerHTML missing_user]
      | Some u \<Rightarrow> if u = '''' then [SetInnerHTML missing_user] else this_render u)"

text \<open>The content of the shadow root after a list of actions, and the URLs fetched.\<close>

fun apply_action :: "string \<Rightarrow> action \<Rightarrow> string" where
  "apply_action innerHTML (SetInnerHTML html) = html"
| "apply_action innerHTML (Fetch url) = innerHTML"
| "apply_action innerHTML SetupSearch = innerHTML"

definition shadow_after :: "action list \<Rightarrow> string \<Rightarrow> string" where
  "shadow_after actions innerHTML = foldl apply_action innerHTML actions"

fun fetched :: "action list \<Rightarrow> string list" where
  "fetched [] = []"
| "fetched (Fetch url # rest) = url # fetched rest"
| "fetched (_ # rest) = fetched rest"


section \<open>Notions used to state the properties\<close>

text \<open>Newest first: no card is followed by one with a later \<open>updated_at\<close>.\<close>

definition newest_first :: "repo list \<Rightarrow> bool" where
  "newest_first rs = sorted_wrt (\<lambda>a b. the (r_updated_at b) \<le> the (r_updated_at a)) rs"




text \<open>The \<open>ok\<close> flag of a response, and a \<open>json()\<close> promise that rejects.\<close>

definition response_ok :: "'a fetch_result \<Rightarrow> bool" where
  "response_ok r = (case r of Rejected \<Rightarrow> False | Response ok body \<Rightarrow> ok)"

definition json_rejects :: "'a fetch_result \<Rightarrow> bool" where
  "json_rejects r = (case r of Rejected \<Rightarrow> False | Response ok body \<Rightarrow> body = None)"

section \<open>Sample records\<close>

definition sample_profile :: profile where
  "sample_profile =
     \<lparr>p_html_url = ''https://github.com/octo'', p_avatar_url = ''https://github.com/octo.png'',
      p_login = ''octo'', p_name = None, p_bio = None,
      p_public_repos = 2, p_followers = 0, p_following = 0\<rparr>"

definition repo_older :: repo where
  "repo_older =
     \<lparr>r_name = ''a'', r_description = None, r_language = None, r_stargazers_count = 0,
      r_forks_count = 0, r_html_url = ''https://github.com/octo/a'', r_fork = False,
      r_updated_at = Some 1000\<rparr>"

definition repo_newer :: repo where
  "repo_newer =
     \<lparr>r_name = ''b'', r_description = None, r_language = None, r_stargazers_count = 0,
      r_forks_count = 0, r_html_url = ''https://github.com/octo/b'', r_fork = False,
      r_updated_at = Some 2000\<rparr>"

text \<open>A repository whose description holds double quotes.\<close>

definition quoted_repo :: repo where
  \<open>quoted_repo =
     \<lparr>r_name = ''demo'', r_description = Some ''My "Best" repo'', r_language = None,
      r_stargazers_count = 0, r_forks_count = 0, r_html_url = ''https://github.com/octo/demo'',
      r_fork = False, r_updated_at = Some 1000\<rparr>\<close>

text \<open>
  An event dated Sunday, 11 January 1970, 00:00:05 UTC, an event with an unreadable date,
  and an event of a type the switch does not list, without a \<open>repo\<close> field.
\<close>

definition sample_event :: event where
  "sample_event = \<lparr>e_type = ''WatchEvent'', e_repo_name = Some ''octo/a'', e_payload = None,
                    e_created_at = Some 864005000\<rparr>"



section \<open>Properties of timeAgo\<close>





section \<open>Properties of the sort and of buildHTML\<close>

lemma mset_insert_by: "mset (insert_by cmp x ys) = add_mset x (mset ys)"
  by (induction ys) auto

lemma mset_js_sort: "mset (js_sort cmp xs) = mset xs"
  unfolding js_sort_def by (induction xs) (auto simp: mset_insert_by)

lemma set_insert_by: "set (insert_by cmp x ys) = insert x (set ys)"
  by (induction ys) auto

lemma compare_updated_valid:
  "r_updated_at a \<noteq> None \<Longrightarrow> r_updated_at b \<noteq> None \<Longrightarrow>
   compare_updated a b = the (r_updated_at b) - the (r_updated_at a)"
  by (auto simp: compare_updated_def)

lemma newest_first_insert_by:
  "r_updated_at x \<noteq> None \<Longrightarrow> \<forall>r \<in> set ys. r_updated_at r \<noteq> None \<Longrightarrow> newest_first ys \<Longrightarrow>
   newest_first (insert_by compare_updated x ys)"
  unfolding newest_first_def
proof (induction ys)
  case Nil
  then show ?case by simp
next
  case (Cons y ys)
  then show ?case
    by (auto simp: compare_updated_valid set_insert_by)
qed

lemma newest_first_js_sort:
  "\<forall>r \<in> set repos. r_updated_at r \<noteq> None \<Longrightarrow> newest_first (js_sort compare_updated repos)"
proof (induction repos)
  case Nil
  then show ?case by (simp add: js_sort_def newest_first_def)
next
  case (Cons r repos)
  have "set (js_sort compare_updated repos) = set repos"
    using mset_js_sort [of compare_updated repos] by (metis set_mset_mset)
  with Cons show ?case
    by (simp add: js_sort_def newest_first_insert_by)
qed







text \<open>
  C1, as the code has it. For repository records whose \<open>updated_at\<close> is a readable date,
  \<open>buildHTML\<close> of \<open>src/gitglue.js\<close> and \<open>buildHTML\<close> of the activity-log file render the
  cards of a permutation of the input that is in non-increasing order of \<open>updated_at\<close>,
  whatever the order of the input; \<open>buildHTML\<close> of the first file of
  \<open>src/unnamed/part_000\<close> renders the cards in the order of the input list.
\<close>

theorem buildHTML_newest_first:
  assumes "\<forall>r \<in> set repos. r_updated_at r \<noteq> None"
  shows "(\<exists>rs. mset rs = mset repos \<and> newest_first rs \<and>
            buildHTML bar_numbers now profile repos contributions =
              profile_header profile @ contrib_graph_div bar_numbers contributions @
              search_container @ concat (map (buildRepoCard now) rs) @ container_close \<and>
            buildHTML_activity now profile repos events =
              profile_header profile @ activity_log_div now events @
              search_container @ concat (map (buildRepoCard now) rs) @ container_close) \<and>
         buildHTML_cards now profile repos =
           profile_header profile @ search_container @
           concat (map (buildRepoCard now) repos) @ container_close"
proof (intro conjI)
  show "\<exists>rs. mset rs = mset repos \<and> newest_first rs \<and>
            buildHTML bar_numbers now profile repos contributions =
              profile_header profile @ contrib_graph_div bar_numbers contributions @
              search_container @ concat (map (buildRepoCard now) rs) @ container_close \<and>
            buildHTML_activity now profile repos events =
              profile_header profile @ activity_log_div now events @
              search_container @ concat (map (buildRepoCard now) rs) @ container_close"
    using assms
    by (intro exI [of _ "js_sort compare_updated repos"])
       (simp add: mset_js_sort newest_first_js_sort buildHTML_def buildHTML_activity_def)
next
  show "buildHTML_cards now profile repos =
           profile_header profile @ search_container @
           concat (map (buildRepoCard now) repos) @ container_close"
    by (simp add: buildHTML_cards_def)
qed

theorem buildHTML_newest_first_witness:
  "r_updated_at repo_older \<noteq> None \<and> r_updated_at repo_newer \<noteq> None \<and>
   (\<exists>rs. mset rs = mset [repo_older, repo_newer] \<and> newest_first rs \<and>
      buildHTML (\<lambda>c m. \<lparr>bt_barHeight = ''2'', bt_y = ''58'', bt_y_minus_4 = ''54''\<rparr>)
          5000 sample_profile [repo_older, repo_newer] [] =
        profile_header sample_profile @
        contrib_graph_div (\<lambda>c m. \<lparr>bt_barHeight = ''2'', bt_y = ''58'', bt_y_minus_4 = ''54''\<rparr>) [] @
        search_container @ concat (map (buildRepoCard 5000) rs) @ container_close)"
proof -
  have valid: "\<forall>r \<in> set [repo_older, repo_newer]. r_updated_at r \<noteq> None"
    by (simp add: repo_older_def repo_newer_def)
  have dated: "r_updated_at repo_older \<noteq> None" "r_updated_at repo_newer \<noteq> None"
    by (simp_all add: repo_older_def repo_newer_def)
  from buildHTML_newest_first [OF valid,
      of "\<lambda>c m. \<lparr>bt_barHeight = ''2'', bt_y = ''58'', bt_y_minus_4 = ''54''\<rparr>" 5000 sample_profile "[]"]
    dated
  show ?thesis by blast
qed

text \<open>
  C1, as the claim states it, fails on the first file of \<open>src/unnamed/part_000\<close>: given an
  older repository before a newer one, its \<open>buildHTML\<close> renders the older card first.
\<close>

theorem buildHTML_cards_input_order:
  "buildHTML_cards 5000 sample_profile [repo_older, repo_newer] =
     profile_header sample_profile @ search_container @
     buildRepoCard 5000 repo_older @ buildRepoCard 5000 repo_newer @ container_close \<and>
   buildRepoCard 5000 repo_older \<noteq> buildRepoCard 5000 repo_newer \<and>
   r_updated_at repo_older = Some 1000 \<and> r_updated_at repo_newer = Some 2000 \<and>
   \<not> newest_first [repo_older, repo_newer]"
proof (intro conjI)
  show "buildRepoCard 5000 repo_older \<noteq> buildRepoCard 5000 repo_newer"
    by (simp add: buildRepoCard_def repo_older_def repo_newer_def toLowerCase_def lower_char_def)
qed (simp_all add: buildHTML_cards_def repo_older_def repo_newer_def newest_first_def)

section \<open>Properties of buildContributionData\<close>











lemma new_week_start:
  "w_start (new_week tz fmt today i) = today - (7 * int i + getDay tz today) * day_ms"
  "w_count (new_week tz fmt today i) = 0"
  by (simp_all add: new_week_def addDays_def Let_def algebra_simps)







section \<open>Properties of formatEventDescription\<close>












section \<open>Properties of the search\<close>

text \<open>\<open>includes\<close> is containment as a contiguous substring.\<close>

lemma js_includes_sublist: "js_includes s q = sublist q s"
  by (induction s) (auto simp: sublist_Cons_right)

lemma js_includes_empty: "js_includes s ''''"
  by (cases s) simp_all

text \<open>
  On elements that carry both data attributes, the handler shows a card exactly when the
  lowercased query occurs in \<open>dataset.name\<close> or in \<open>dataset.desc\<close>, and the empty query
  shows every card.
\<close>

lemma search_each_display:
  "\<forall>el \<in> set els. dataset_name el \<noteq> None \<and> dataset_desc el \<noteq> None \<Longrightarrow>
   map style_display (search_each query els) =
     map (\<lambda>el. if js_includes (the (dataset_name el)) query \<or>
                     js_includes (the (dataset_desc el)) query
                  then '''' else ''none'') els"
  by (induction els) auto

lemma search_input_empty_query:
  "\<forall>el \<in> set els. dataset_name el \<noteq> None \<and> dataset_desc el \<noteq> None \<Longrightarrow>
   map style_display (search_input '''' els) = map (\<lambda>el. '''') els"
  by (simp add: search_input_def toLowerCase_def search_each_display js_includes_empty)

text \<open>
  A name without double quote and space and a description without double quote are read
  back from the markup of the card as they were written.
\<close>

lemma lower_char_quote: "(lower_char c = CHR 0x22) = (c = CHR 0x22)"
  by (auto simp: lower_char_def split: option.splits if_splits)

lemma lower_char_space: "(lower_char c = CHR 0x20) = (c = CHR 0x20)"
  by (auto simp: lower_char_def split: option.splits if_splits)

lemma toLowerCase_quote_free: "CHR 0x22 \<notin> set s \<Longrightarrow> CHR 0x22 \<notin> set (toLowerCase s)"
proof
  assume a: "CHR 0x22 \<notin> set s" and "CHR 0x22 \<in> set (toLowerCase s)"
  then obtain c where "c \<in> set s" "lower_char c = CHR 0x22"
    by (auto simp: toLowerCase_def)
  with a show False by (simp add: lower_char_quote)
qed

lemma toLowerCase_space_free: "CHR 0x20 \<notin> set s \<Longrightarrow> CHR 0x20 \<notin> set (toLowerCase s)"
proof
  assume a: "CHR 0x20 \<notin> set s" and "CHR 0x20 \<in> set (toLowerCase s)"
  then obtain c where "c \<in> set s" "lower_char c = CHR 0x20"
    by (auto simp: toLowerCase_def)
  with a show False by (simp add: lower_char_space)
qed

lemma after_first_skip:
  "c \<notin> set xs \<Longrightarrow> after_first (c # pat) (xs @ ys) = after_first (c # pat) ys"
  by (induction xs) auto

lemma takeWhile_until:
  "c \<notin> set xs \<Longrightarrow> takeWhile (\<lambda>x. x \<noteq> c) (xs @ c # ys) = xs"
  by (induction xs) auto

lemma card_shape:
  \<open>\<exists>tail. buildRepoCard now repo =
     ''\<newline>      <article class="repo" data-name="'' @ toLowerCase (r_name repo) @
     ''" data-desc="'' @ toLowerCase (or_else (r_description repo) '''') @ CHR 0x22 # tail\<close>
  by (simp add: buildRepoCard_def)

lemma card_element_clean:
  assumes "CHR 0x22 \<notin> set (r_name repo)" "CHR 0x20 \<notin> set (r_name repo)"
    and "CHR 0x22 \<notin> set (or_else (r_description repo) '''')"
  shows "card_element (buildRepoCard now repo) =
     \<lparr>dataset_name = Some (toLowerCase (r_name repo)),
      dataset_desc = Some (toLowerCase (or_else (r_description repo) '''')),
      style_display = ''''\<rparr>"
proof -
  let ?n = "toLowerCase (r_name repo)"
  let ?d = "toLowerCase (or_else (r_description repo) '''')"
  obtain tail where card: \<open>buildRepoCard now repo =
     ''\<newline>      <article class="repo" data-name="'' @ ?n @
     ''" data-desc="'' @ ?d @ CHR 0x22 # tail\<close>
    using card_shape by blast
  have nq: "CHR 0x22 \<notin> set ?n" and ns: "CHR 0x20 \<notin> set ?n" and dq: "CHR 0x22 \<notin> set ?d"
    using assms by (simp_all add: toLowerCase_quote_free toLowerCase_space_free)
  have name: \<open>attr_value ''data-name'' (buildRepoCard now repo) = Some ?n\<close>
    unfolding card attr_value_def using takeWhile_until [OF nq] by simp
  have \<open>after_first '' data-desc="'' (buildRepoCard now repo) = Some (?d @ CHR 0x22 # tail)\<close>
    unfolding card using after_first_skip [OF ns] by simp
  then have desc: \<open>attr_value ''data-desc'' (buildRepoCard now repo) = Some ?d\<close>
    unfolding attr_value_def using takeWhile_until [OF dq] by simp
  show ?thesis by (simp add: card_element_def name desc)
qed


lemma search_on_quote_free_cards:
  assumes "\<forall>repo \<in> set repos. CHR 0x22 \<notin> set (r_name repo) \<and> CHR 0x20 \<notin> set (r_name repo) \<and>
             CHR 0x22 \<notin> set (or_else (r_description repo) [])"
  shows "map style_display (search_input q (map (\<lambda>repo. card_element (buildRepoCard now repo)) repos)) =
     map (\<lambda>repo. if js_includes (toLowerCase (r_name repo)) (toLowerCase q) \<or>
                       js_includes (toLowerCase (or_else (r_description repo) [])) (toLowerCase q)
                    then [] else ''none'') repos"
proof -
  have "map style_display (search_input q (map (\<lambda>repo. card_element (buildRepoCard now repo)) repos)) =
     map (\<lambda>el. if js_includes (the (dataset_name el)) (toLowerCase q) \<or>
                     js_includes (the (dataset_desc el)) (toLowerCase q)
                  then [] else ''none'') (map (\<lambda>repo. card_element (buildRepoCard now repo)) repos)"
    unfolding search_input_def Let_def
    using assms by (intro search_each_display) (auto simp: card_element_clean)
  also have "\<dots> = map (\<lambda>repo. if js_includes (toLowerCase (r_name repo)) (toLowerCase q) \<or>
                       js_includes (toLowerCase (or_else (r_description repo) [])) (toLowerCase q)
                    then [] else ''none'') repos"
    using assms by (simp add: card_element_clean)
  finally show ?thesis .
qed

text \<open>
  C5 at a repository whose description is \<open>My "Best" repo\<close>, searched for \<open>best\<close>. The
  lowercased description contains the lowercased query, but the value read back from
  \<open>data-desc\<close> ends at the first double quote of the description, so the handler finds no
  match and hides the card.
\<close>

theorem search_misses_quoted_description:
  \<open>r_description quoted_repo = Some ''My "Best" repo'' \<and>
   js_includes (toLowerCase (or_else (r_description quoted_repo) '''')) (toLowerCase ''best'') \<and>
   dataset_name (card_element (buildRepoCard 5000 quoted_repo)) = Some ''demo'' \<and>
   dataset_desc (card_element (buildRepoCard 5000 quoted_repo)) = Some ''my '' \<and>
   map style_display (search_input ''best'' [card_element (buildRepoCard 5000 quoted_repo)]) =
     [''none'']\<close>
  by code_simp

section \<open>Properties of connectedCallback and render\<close>

lemma profile_header_newline: "\<exists>rest. profile_header profile = CHR 0x0A # rest"
  by (simp add: profile_header_def)

lemma page_not_failed:
  "buildHTML bar_numbers now profile repos contributions \<noteq> failed"
  "buildHTML_activity now profile repos events \<noteq> failed"
  using profile_header_newline [of profile]
  by (auto simp: buildHTML_def buildHTML_activity_def failed_def)





text \<open>
  C9. With the \<open>user\<close> attribute absent or empty, \<open>connectedCallback\<close> assigns the
  message \<open>Error: Missing "user" attribute\<close> to the shadow root and does nothing else,
  whatever \<open>render\<close> would do: no \<open>fetch\<close> is issued.
\<close>

theorem connectedCallback_missing_user:
  \<open>connectedCallback this_render None =
     [SetInnerHTML ''<p style="color: #f85149;">Error: Missing "user" attribute</p>''] \<and>
   connectedCallback this_render (Some '''') =
     [SetInnerHTML ''<p style="color: #f85149;">Error: Missing "user" attribute</p>''] \<and>
   fetched (connectedCallback this_render None) = [] \<and>
   fetched (connectedCallback this_render (Some '''')) = [] \<and>
   shadow_after (connectedCallback this_render None) prev =
     ''<p style="color: #f85149;">Error: Missing "user" attribute</p>'' \<and>
   shadow_after (connectedCallback this_render (Some '''')) prev =
     ''<p style="color: #f85149;">Error: Missing "user" attribute</p>''\<close>
  by (simp add: connectedCallback_def missing_user_def shadow_after_def)

theorem connectedCallback_missing_user_witness:
  \<open>connectedCallback (\<lambda>user. [Fetch (profile_url user)]) None =
     [SetInnerHTML ''<p style="color: #f85149;">Error: Missing "user" attribute</p>''] \<and>
   fetched (connectedCallback (\<lambda>user. [Fetch (profile_url user)]) (Some '''')) = []\<close>
  using connectedCallback_missing_user [of "\<lambda>user. [Fetch (profile_url user)]" "''''"]
  by blast

text \<open>
  C10. When the profile and the repositories are fetched and parsed and the response for the
  events is not ok, \<open>render\<close> shows the full page built from an empty event list (twelve
  buckets of count zero in \<open>src/gitglue.js\<close>, the empty activity log in the activity-log
  file). The shadow root ends as \<open>Failed to load GitHub data\<close> exactly when the profile or
  the repository response is rejected or not ok, the events fetch is rejected, or a
  \<open>json()\<close> that is called rejects: that of the profile, of the repositories, or of an ok
  events response.
\<close>

theorem events_failure_tolerated:
  "shadow_after (render styles now tz fmt bar_numbers user (Response True (Some profile))
       (Response True (Some repos)) (Response False events_json)) prev =
     styles @ buildHTML bar_numbers now profile repos (buildContributionData now tz fmt []) \<and>
   map w_count (buildContributionData now tz fmt []) = replicate 12 0 \<and>
   shadow_after (render_activity styles now user (Response True (Some profile))
       (Response True (Some repos)) (Response False events_json)) prev =
     styles @ buildHTML_activity now profile repos [] \<and>
   (shadow_after (render styles now tz fmt bar_numbers user profileRes reposRes eventsRes) prev =
      styles @ failed \<longleftrightarrow>
    \<not> response_ok profileRes \<or> \<not> response_ok reposRes \<or> eventsRes = Rejected \<or>
    json_rejects profileRes \<or> json_rejects reposRes \<or>
    (response_ok eventsRes \<and> json_rejects eventsRes)) \<and>
   (shadow_after (render_activity styles now user profileRes reposRes eventsRes) prev =
      styles @ failed \<longleftrightarrow>
    \<not> response_ok profileRes \<or> \<not> response_ok reposRes \<or> eventsRes = Rejected \<or>
    json_rejects profileRes \<or> json_rejects reposRes \<or>
    (response_ok eventsRes \<and> json_rejects eventsRes))"
proof (intro conjI)
  show "map w_count (buildContributionData now tz fmt []) = replicate 12 0"
    by (simp add: buildContributionData_def Let_def new_week_start o_def) code_simp
  show "(shadow_after (render styles now tz fmt bar_numbers user profileRes reposRes eventsRes) prev =
      styles @ failed \<longleftrightarrow>
    \<not> response_ok profileRes \<or> \<not> response_ok reposRes \<or> eventsRes = Rejected \<or>
    json_rejects profileRes \<or> json_rejects reposRes \<or>
    (response_ok eventsRes \<and> json_rejects eventsRes))"
    by (auto simp: render_def shadow_after_def response_ok_def json_rejects_def page_not_failed Let_def
             split: fetch_result.splits option.splits)
  show "(shadow_after (render_activity styles now user profileRes reposRes eventsRes) prev =
      styles @ failed \<longleftrightarrow>
    \<not> response_ok profileRes \<or> \<not> response_ok reposRes \<or> eventsRes = Rejected \<or>
    json_rejects profileRes \<or> json_rejects reposRes \<or>
    (response_ok eventsRes \<and> json_rejects eventsRes))"
    by (auto simp: render_activity_def shadow_after_def response_ok_def json_rejects_def page_not_failed
             split: fetch_result.splits option.splits)
qed (simp_all add: render_def render_activity_def shadow_after_def)

theorem events_failure_tolerated_witness:
  "\<not> response_ok (Response False (Some sample_profile)) \<and>
   shadow_after (render '''' 864005000 0 (\<lambda>t. '''')
       (\<lambda>c m. \<lparr>bt_barHeight = ''2'', bt_y = ''58'', bt_y_minus_4 = ''54''\<rparr>) ''octo''
       (Response False (Some sample_profile)) (Response True (Some [repo_older]))
       (Response True (Some [sample_event]))) '''' = failed \<and>
   shadow_after (render '''' 864005000 0 (\<lambda>t. '''')
       (\<lambda>c m. \<lparr>bt_barHeight = ''2'', bt_y = ''58'', bt_y_minus_4 = ''54''\<rparr>) ''octo''
       (Response True (Some sample_profile)) (Response True (Some [repo_older]))
       (Response False None)) '''' \<noteq> failed"
proof -
  have n: "\<not> response_ok (Response False (Some sample_profile))"
    by (simp add: response_ok_def)
  have "shadow_after (render '''' 864005000 0 (\<lambda>t. '''')
       (\<lambda>c m. \<lparr>bt_barHeight = ''2'', bt_y = ''58'', bt_y_minus_4 = ''54''\<rparr>) ''octo''
       (Response False (Some sample_profile)) (Response True (Some [repo_older]))
       (Response True (Some [sample_event]))) '''' = '''' @ failed"
    using events_failure_tolerated [of "''''" 864005000 0 "\<lambda>t. ''''"
      "\<lambda>c m. \<lparr>bt_barHeight = ''2'', bt_y = ''58'', bt_y_minus_4 = ''54''\<rparr>" "''octo''"
      sample_profile "[repo_older]" None "''''"
      "Response False (Some sample_profile)" "Response True (Some [repo_older])"
      "Response True (Some [sample_event])"] n
    by blast
  moreover have "shadow_after (render '''' 864005000 0 (\<lambda>t. '''')
       (\<lambda>c m. \<lparr>bt_barHeight = ''2'', bt_y = ''58'', bt_y_minus_4 = ''54''\<rparr>) ''octo''
       (Response True (Some sample_profile)) (Response True (Some [repo_older]))
       (Response False None)) '''' \<noteq> '''' @ failed"
    using events_failure_tolerated [of "''''" 864005000 0 "\<lambda>t. ''''"
      "\<lambda>c m. \<lparr>bt_barHeight = ''2'', bt_y = ''58'', bt_y_minus_4 = ''54''\<rparr>" "''octo''"
      sample_profile "[repo_older]" None "''''"
      "Response True (Some sample_profile)" "Response True (Some [repo_older])"
      "Response False None"]
    by (simp add: response_ok_def json_rejects_def page_not_failed)
  ultimately show ?thesis using n by simp
qed

end
